theory Spec2Isabelle
  imports Complex_Main
begin

section \<open>Leader election over a ConfigMap lock (leader.go)\<close>

text \<open>
  The package has one entry point, \<open>Become\<close>, a client of the Kubernetes API. The
  embedding runs \<open>Become\<close> against a \<open>world\<close>: the process environment (the namespace
  file, the environment variables, the in-cluster configuration) and the answers the
  API server gives to the requests \<open>Become\<close> makes, in the order it makes them. The
  result is what \<open>Become\<close> returns together with the trace of everything it did (log
  lines, API calls, sleeps). The retry loop of \<open>Become\<close> has no exit but success or a
  fatal error, so the world scripts a finite list of rounds, one per loop iteration; a
  run that is still in the loop when the script ends is \<open>StillWaiting\<close>.
\<close>

subsection \<open>Data\<close>

text \<open>Go's \<open>error\<close> values, as far as the code tells them apart:
  \<open>os.IsNotExist\<close>, \<open>apierrors.IsNotFound\<close>, \<open>apierrors.IsAlreadyExists\<close>, the two
  errors \<open>fmt.Errorf\<close> builds in this file, and any other error.\<close>

datatype error =
    ErrNotExist
  | StatusNotFound
  | StatusAlreadyExists
  | ErrNamespaceNotFound
  | ErrPodNameNotSet
  | ErrOther string

definition IsNotExist :: "error \<Rightarrow> bool" where
  "IsNotExist err = (err = ErrNotExist)"

text \<open>The two \<open>apierrors\<close> predicates take an \<open>error\<close> that may be \<open>nil\<close>.\<close>

definition IsNotFound :: "error option \<Rightarrow> bool" where
  "IsNotFound err = (err = Some StatusNotFound)"

definition IsAlreadyExists :: "error option \<Rightarrow> bool" where
  "IsAlreadyExists err = (err = Some StatusAlreadyExists)"

text \<open>\<open>time.Duration\<close> is a count of nanoseconds, an \<open>int64\<close>. The backoff never
  exceeds 16 seconds (\<open>backoff_fits_int64\<close> below), so its doubling never wraps around
  and the durations are integers here.\<close>

type_synonym Duration = int

definition Second :: Duration where
  "Second = 1000000000"

definition PodNameEnvVar :: string where
  "PodNameEnvVar = ''POD_NAME''"

definition maxBackoffInterval :: Duration where
  "maxBackoffInterval = Second * 16"

text \<open>\<open>metav1.OwnerReference\<close>, \<open>v1.ConfigMap\<close> and \<open>v1.Pod\<close>, with the fields the
  code reads or writes.\<close>

record OwnerReference =
  or_APIVersion :: string
  or_Kind :: string
  or_Name :: string
  or_UID :: string

record ConfigMap =
  cm_Name :: string
  cm_Namespace :: string
  cm_OwnerReferences :: "OwnerReference list"

record Pod =
  pod_Name :: string
  pod_UID :: string
  pod_DeletionTimestamp :: "int option"
  pod_Phase :: string
  pod_Reason :: string

definition PodFailed :: string where
  "PodFailed = ''Failed''"

text \<open>The zero value \<open>v1.ConfigMap{}\<close>.\<close>

definition zeroConfigMap :: ConfigMap where
  "zeroConfigMap = \<lparr>cm_Name = [], cm_Namespace = [], cm_OwnerReferences = []\<rparr>"

subsection \<open>The world and the trace\<close>

text \<open>One round holds the answers of one iteration of the retry loop: the error of
  \<open>Create\<close>, the answer to the \<open>Get\<close> of the lock owner's pod, the error of its
  \<open>Delete\<close>, and the sample \<open>rand.Float64()\<close> that \<open>wait.Jitter\<close> draws. An answer
  the iteration does not ask for is not read.\<close>

record round =
  createErr :: "error option"
  leaderPodGet :: "error + Pod"
  leaderPodDelete :: "error option"
  jitterSample :: real

record world =
  namespaceFile :: "error + string"
  inClusterConfig :: "error option"
  environ :: "string \<rightharpoonup> string"
  myPodGet :: "error + Pod"
  lockGet :: "error + ConfigMap"
  rounds :: "round list"

datatype api_call =
    GetPod string string
  | DeletePod string string
  | GetConfigMap string string
  | CreateConfigMap string ConfigMap

text \<open>One constructor per log statement of the file, with the values it prints.\<close>

datatype log_line =
    TryingToBecomeTheLeader
  | FailedToGetPod string string
  | FoundExistingLockWithMyName
  | ContinuingAsTheLeader
  | FoundExistingLock string
  | NoPreExistingLock
  | UnknownErrorGetConfigMap error
  | BecameTheLeader
  | MustHaveExactlyOneOwner ConfigMap
  | OwnerMustBeAPod OwnerReference
  | LeaderPodHasBeenDeleted
  | LeaderHasBeenEvicted string
  | DeletingEvictedLeader
  | LeaderPodCouldNotBeDeleted error
  | NotTheLeaderWaiting
  | UnknownErrorCreatingConfigMap error

datatype event =
    Log log_line
  | Api api_call
  | Sleep Duration

text \<open>What a run of \<open>Become\<close> comes to: it returns (\<open>None\<close> is Go's \<open>nil\<close>), or it is
  still in the retry loop when the scripted rounds are used up.\<close>

datatype outcome =
    Return "error option"
  | StillWaiting

text \<open>What one pass through the loop body comes to.\<close>

datatype step =
    Done "error option"
  | Continue

subsection \<open>Library functions the code calls\<close>

text \<open>\<open>os.Getenv\<close>: the value of the variable, empty when it is unset.\<close>

definition Getenv :: "world \<Rightarrow> string \<Rightarrow> string" where
  "Getenv w key = (case environ w key of None \<Rightarrow> [] | Some v \<Rightarrow> v)"

text \<open>\<open>strings.TrimSpace\<close>, on the ASCII white space characters.\<close>

definition isSpace :: "char \<Rightarrow> bool" where
  "isSpace c = (c \<in> set [CHR '' '', CHR 0x09, CHR 0x0A, CHR 0x0B, CHR 0x0C, CHR 0x0D])"

definition TrimSpace :: "string \<Rightarrow> string" where
  "TrimSpace s = rev (dropWhile isSpace (rev (dropWhile isSpace s)))"

text \<open>The conversion \<open>time.Duration(x)\<close> of a float: towards zero.\<close>

definition toDuration :: "real \<Rightarrow> int" where
  "toDuration x = (if 0 \<le> x then \<lfloor>x\<rfloor> else \<lceil>x\<rceil>)"

text \<open>\<open>wait.Jitter\<close> of \<open>k8s.io/apimachinery\<close>, which is not part of this repository:
  \<open>duration + time.Duration(rand.Float64() * maxFactor * float64(duration))\<close>, with
  \<open>maxFactor\<close> replaced by 1 when it is not positive. The sample \<open>rnd\<close> is the value of
  \<open>rand.Float64()\<close>, in \<open>[0, 1)\<close>; the product is taken over the reals.\<close>

definition Jitter :: "Duration \<Rightarrow> real \<Rightarrow> real \<Rightarrow> Duration" where
  "Jitter duration maxFactor rnd =
     (let mf = (if maxFactor \<le> 0 then 1 else maxFactor)
      in duration + toDuration (rnd * mf * real_of_int duration))"

text \<open>The typed client's \<open>ConfigMaps(ns).Get\<close> returns a pair \<open>(result, err)\<close>; it
  allocates \<open>result = &v1.ConfigMap{}\<close> before the request and decodes the answer into
  it only when the request succeeded.\<close>

definition ConfigMaps_Get :: "error + ConfigMap \<Rightarrow> ConfigMap \<times> error option" where
  "ConfigMaps_Get answer =
     (case answer of Inl err \<Rightarrow> (zeroConfigMap, Some err) | Inr c \<Rightarrow> (c, None))"

subsection \<open>The functions of leader.go\<close>

definition getNamespace :: "world \<Rightarrow> error + string" where
  "getNamespace w =
     (case namespaceFile w of
        Inl err \<Rightarrow> (if IsNotExist err then Inl ErrNamespaceNotFound else Inl err)
      | Inr nsBytes \<Rightarrow> Inr (TrimSpace nsBytes))"

definition getMyPod :: "world \<Rightarrow> string \<Rightarrow> (error + Pod) \<times> event list" where
  "getMyPod w ns =
     (let podName = Getenv w PodNameEnvVar in
      if podName = [] then (Inl ErrPodNameNotSet, [])
      else
        (case myPodGet w of
           Inl err \<Rightarrow> (Inl err, [Api (GetPod ns podName), Log (FailedToGetPod ns podName)])
         | Inr pod \<Rightarrow> (Inr pod, [Api (GetPod ns podName)])))"

definition myOwnerRef :: "world \<Rightarrow> string \<Rightarrow> (error + OwnerReference) \<times> event list" where
  "myOwnerRef w ns =
     (case getMyPod w ns of
        (Inl err, t) \<Rightarrow> (Inl err, t)
      | (Inr myPod, t) \<Rightarrow>
          (Inr \<lparr>or_APIVersion = ''v1'', or_Kind = ''Pod'',
                or_Name = pod_Name myPod, or_UID = pod_UID myPod\<rparr>, t))"

definition isPodEvicted :: "Pod \<Rightarrow> bool" where
  "isPodEvicted pod =
     (let podFailed = (pod_Phase pod = PodFailed);
          podEvicted = (pod_Reason pod = ''Evicted'')
      in podFailed \<and> podEvicted)"

text \<open>Lines 60 to 68 of \<open>Become\<close>: the loop over the owner references of the lock that
  was found. \<open>True\<close> is the \<open>return nil\<close> of line 64.\<close>

fun ownedByMe :: "OwnerReference \<Rightarrow> OwnerReference list \<Rightarrow> bool \<times> event list" where
  "ownedByMe owner [] = (False, [])"
| "ownedByMe owner (existingOwner # rest) =
     (if or_Name existingOwner = or_Name owner
      then (True, [Log FoundExistingLockWithMyName, Log ContinuingAsTheLeader])
      else (case ownedByMe owner rest of
              (found, t) \<Rightarrow> (found, Log (FoundExistingLock (or_Name existingOwner)) # t)))"

text \<open>Lines 58 to 74: the switch on the error of the first \<open>Get\<close> of the lock.
  \<open>Done\<close> is a return of \<open>Become\<close>, \<open>Continue\<close> falls through to the creation.\<close>

definition checkExisting ::
  "OwnerReference \<Rightarrow> ConfigMap \<Rightarrow> error option \<Rightarrow> step \<times> event list" where
  "checkExisting owner existing err =
     (case err of
        None \<Rightarrow>
          (case ownedByMe owner (cm_OwnerReferences existing) of
             (True, t) \<Rightarrow> (Done None, t)
           | (False, t) \<Rightarrow> (Continue, t))
      | Some e \<Rightarrow>
          if IsNotFound err then (Continue, [Log NoPreExistingLock])
          else (Done (Some e), [Log (UnknownErrorGetConfigMap e)]))"

text \<open>Lines 93 to 118: the handling of \<open>AlreadyExists\<close>, on the owner references of
  \<open>existing\<close>. \<open>Some err\<close> is the \<open>return err\<close> of line 107.\<close>

definition inspectLeader ::
  "string \<Rightarrow> ConfigMap \<Rightarrow> round \<Rightarrow> error option \<times> event list" where
  "inspectLeader ns existing r =
     (let existingOwners = cm_OwnerReferences existing in
      if length existingOwners \<noteq> 1 then
        (None, [Log (MustHaveExactlyOneOwner existing)])
      else if or_Kind (existingOwners ! 0) \<noteq> ''Pod'' then
        (None, [Log (OwnerMustBeAPod (existingOwners ! 0))])
      else
        (let call = Api (GetPod ns (or_Name (existingOwners ! 0))) in
         case leaderPodGet r of
           Inl err \<Rightarrow>
             if IsNotFound (Some err) then (None, [call, Log LeaderPodHasBeenDeleted])
             else (Some err, [call])
         | Inr leaderPod \<Rightarrow>
             if isPodEvicted leaderPod \<and> pod_DeletionTimestamp leaderPod = None then
               (None,
                [call, Log (LeaderHasBeenEvicted (pod_Name leaderPod)),
                 Log DeletingEvictedLeader, Api (DeletePod ns (pod_Name leaderPod))]
                @ (case leaderPodDelete r of
                     Some err \<Rightarrow> [Log (LeaderPodCouldNotBeDeleted err)]
                   | None \<Rightarrow> []))
             else (None, [call, Log NotTheLeaderWaiting])))"

text \<open>Lines 87 to 131: one pass through the body of the retry loop.\<close>

definition attempt ::
  "string \<Rightarrow> ConfigMap \<Rightarrow> ConfigMap \<Rightarrow> Duration \<Rightarrow> round \<Rightarrow> step \<times> event list" where
  "attempt ns cm existing backoff r =
     (let create = Api (CreateConfigMap ns cm) in
      case createErr r of
        None \<Rightarrow> (Done None, [create, Log BecameTheLeader])
      | Some e \<Rightarrow>
          if IsAlreadyExists (createErr r) then
            (case inspectLeader ns existing r of
               (Some err, t) \<Rightarrow> (Done (Some err), create # t)
             | (None, t) \<Rightarrow>
                 (Continue, create # t @ [Sleep (Jitter backoff (2 / 10) (jitterSample r))]))
          else (Done (Some e), [create, Log (UnknownErrorCreatingConfigMap e)]))"

text \<open>Lines 122 to 124: the backoff for the next pass.\<close>

definition nextBackoff :: "Duration \<Rightarrow> Duration" where
  "nextBackoff backoff = (if backoff < maxBackoffInterval then backoff * 2 else backoff)"

text \<open>Lines 86 to 132: the retry loop, over the scripted rounds.\<close>

fun tryCreate ::
  "string \<Rightarrow> ConfigMap \<Rightarrow> ConfigMap \<Rightarrow> Duration \<Rightarrow> round list \<Rightarrow> outcome \<times> event list" where
  "tryCreate ns cm existing backoff [] = (StillWaiting, [])"
| "tryCreate ns cm existing backoff (r # rs) =
     (case attempt ns cm existing backoff r of
        (Done res, t) \<Rightarrow> (Return res, t)
      | (Continue, t) \<Rightarrow>
          (case tryCreate ns cm existing (nextBackoff backoff) rs of
             (out, t') \<Rightarrow> (out, t @ t')))"

text \<open>Lines 37 to 82 of \<open>Become\<close>: everything before the retry loop. \<open>Inl res\<close> is
  a return of \<open>Become\<close>; \<open>Inr (ns, cm, existing)\<close> are the namespace, the lock to
  create and the lock that was read, which the loop runs on.
  \<open>rest.InClusterConfig\<close> reads the service account's files and may fail;
  \<open>kubernetes.NewForConfigOrDie\<close> builds the client from the configuration that was
  loaded. Neither sends a request.\<close>

definition prepare ::
  "world \<Rightarrow> string \<Rightarrow> (error option + string \<times> ConfigMap \<times> ConfigMap) \<times> event list" where
  "prepare w lockName =
     (let t0 = [Log TryingToBecomeTheLeader] in
      case getNamespace w of
        Inl err \<Rightarrow> (Inl (Some err), t0)
      | Inr ns \<Rightarrow>
          (case inClusterConfig w of
             Some err \<Rightarrow> (Inl (Some err), t0)
           | None \<Rightarrow>
               (case myOwnerRef w ns of
                  (Inl err, t1) \<Rightarrow> (Inl (Some err), t0 @ t1)
                | (Inr owner, t1) \<Rightarrow>
                    (case ConfigMaps_Get (lockGet w) of
                       (existing, err) \<Rightarrow>
                         (let t2 = t0 @ t1 @ [Api (GetConfigMap ns lockName)] in
                          case checkExisting owner existing err of
                            (Done res, t3) \<Rightarrow> (Inl res, t2 @ t3)
                          | (Continue, t3) \<Rightarrow>
                              (let cm = \<lparr>cm_Name = lockName, cm_Namespace = ns,
                                         cm_OwnerReferences = [owner]\<rparr>
                               in (Inr (ns, cm, existing), t2 @ t3)))))))"

text \<open>\<open>Become\<close>: the preparation, then the retry loop with \<open>backoff := time.Second\<close>.\<close>

definition Become :: "world \<Rightarrow> string \<Rightarrow> outcome \<times> event list" where
  "Become w lockName =
     (case prepare w lockName of
        (Inl res, t) \<Rightarrow> (Return res, t)
      | (Inr (ns, cm, existing), t) \<Rightarrow>
          (case tryCreate ns cm existing Second (rounds w) of
             (out, t') \<Rightarrow> (out, t @ t')))"

subsection \<open>Reading a trace\<close>

fun api_calls :: "event list \<Rightarrow> api_call list" where
  "api_calls [] = []"
| "api_calls (Api c # es) = c # api_calls es"
| "api_calls (e # es) = api_calls es"

fun sleeps :: "event list \<Rightarrow> Duration list" where
  "sleeps [] = []"
| "sleeps (Sleep d # es) = d # sleeps es"
| "sleeps (e # es) = sleeps es"

fun isGetConfigMap :: "api_call \<Rightarrow> bool" where
  "isGetConfigMap (GetConfigMap ns n) = True"
| "isGetConfigMap c = False"

fun isCreateConfigMap :: "api_call \<Rightarrow> bool" where
  "isCreateConfigMap (CreateConfigMap ns c) = True"
| "isCreateConfigMap c = False"

fun isGetPod :: "api_call \<Rightarrow> bool" where
  "isGetPod (GetPod ns n) = True"
| "isGetPod c = False"

fun isDeletePod :: "api_call \<Rightarrow> bool" where
  "isDeletePod (DeletePod ns n) = True"
| "isDeletePod c = False"

text \<open>The events that directly follow a sleep.\<close>

fun afterSleeps :: "event list \<Rightarrow> event list" where
  "afterSleeps [] = []"
| "afterSleeps (Sleep d # e # es) = e # afterSleeps (e # es)"
| "afterSleeps (e # es) = afterSleeps es"

subsection \<open>The backoff sequence of the specification\<close>

text \<open>The nominal sleep of the \<open>i\<close>-th waiting cycle as the specification gives it:
  1, 2, 4, 8, 16, 16, 16, ... seconds.\<close>

definition spec_backoff :: "nat \<Rightarrow> Duration" where
  "spec_backoff i = Second * min (2 ^ i) 16"

subsection \<open>Example worlds\<close>

definition podMe :: Pod where
  "podMe = \<lparr>pod_Name = ''me'', pod_UID = ''uid-me'', pod_DeletionTimestamp = None,
            pod_Phase = ''Running'', pod_Reason = []\<rparr>"

definition podA :: Pod where
  "podA = \<lparr>pod_Name = ''a'', pod_UID = ''uid-a'', pod_DeletionTimestamp = None,
           pod_Phase = ''Running'', pod_Reason = []\<rparr>"

definition podEvicted :: Pod where
  "podEvicted = \<lparr>pod_Name = ''a'', pod_UID = ''uid-a'', pod_DeletionTimestamp = None,
                 pod_Phase = ''Failed'', pod_Reason = ''Evicted''\<rparr>"

definition refMe :: OwnerReference where
  "refMe = \<lparr>or_APIVersion = ''v1'', or_Kind = ''Pod'', or_Name = ''me'', or_UID = ''uid-me''\<rparr>"

definition refA :: OwnerReference where
  "refA = \<lparr>or_APIVersion = ''v1'', or_Kind = ''Pod'', or_Name = ''a'', or_UID = ''uid-a''\<rparr>"

definition refB :: OwnerReference where
  "refB = \<lparr>or_APIVersion = ''v1'', or_Kind = ''Pod'', or_Name = ''b'', or_UID = ''uid-b''\<rparr>"

definition lockOf :: "OwnerReference list \<Rightarrow> ConfigMap" where
  "lockOf owners = \<lparr>cm_Name = ''lock'', cm_Namespace = ''ns'', cm_OwnerReferences = owners\<rparr>"

text \<open>\<open>Create\<close> answers \<open>AlreadyExists\<close>; the owner's pod is running.\<close>

definition conflictRound :: round where
  "conflictRound = \<lparr>createErr = Some StatusAlreadyExists, leaderPodGet = Inr podA,
      leaderPodDelete = None, jitterSample = 1 / 2\<rparr>"

text \<open>\<open>Create\<close> answers \<open>AlreadyExists\<close>; the owner's pod is evicted and its deletion
  is refused.\<close>

definition evictedRound :: round where
  "evictedRound = \<lparr>createErr = Some StatusAlreadyExists, leaderPodGet = Inr podEvicted,
      leaderPodDelete = Some (ErrOther ''forbidden''), jitterSample = 0\<rparr>"

text \<open>\<open>Create\<close> answers \<open>AlreadyExists\<close>; the lookup of the owner's pod fails.\<close>

definition lookupFailsRound :: round where
  "lookupFailsRound = \<lparr>createErr = Some StatusAlreadyExists,
      leaderPodGet = Inl (ErrOther ''timeout''), leaderPodDelete = None, jitterSample = 0\<rparr>"

text \<open>\<open>Create\<close> succeeds.\<close>

definition wonRound :: round where
  "wonRound = \<lparr>createErr = None, leaderPodGet = Inl StatusNotFound,
      leaderPodDelete = None, jitterSample = 0\<rparr>"

text \<open>A pod \<open>me\<close> in namespace \<open>ns\<close>, with the lock that was read and the rounds that
  follow.\<close>

definition exampleWorld :: "error + ConfigMap \<Rightarrow> round list \<Rightarrow> world" where
  "exampleWorld lock rs =
     \<lparr>namespaceFile = Inr (''ns'' @ [CHR 0x0A]), inClusterConfig = None,
      environ = [PodNameEnvVar \<mapsto> ''me''], myPodGet = Inr podMe, lockGet = lock,
      rounds = rs\<rparr>"

lemmas model_defs =
  Let_def Become_def Getenv_def PodNameEnvVar_def prepare_def checkExisting_def
  inspectLeader_def attempt_def nextBackoff_def myOwnerRef_def getMyPod_def getNamespace_def ConfigMaps_Get_def isPodEvicted_def
  TrimSpace_def isSpace_def Jitter_def toDuration_def IsNotExist_def IsNotFound_def
  IsAlreadyExists_def Second_def maxBackoffInterval_def PodFailed_def zeroConfigMap_def

lemmas example_defs =
  exampleWorld_def lockOf_def conflictRound_def evictedRound_def lookupFailsRound_def
  wonRound_def podMe_def podA_def podEvicted_def refMe_def refA_def refB_def

section \<open>Properties\<close>

subsection \<open>Traces\<close>

lemma api_calls_append: "api_calls (xs @ ys) = api_calls xs @ api_calls ys"
  by (induction xs rule: api_calls.induct) simp_all

lemma sleeps_append: "sleeps (xs @ ys) = sleeps xs @ sleeps ys"
  by (induction xs rule: sleeps.induct) simp_all

lemma sleeps_inspectLeader: "sleeps (snd (inspectLeader ns existing r)) = []"
  by (simp add: inspectLeader_def Let_def split: sum.splits option.splits)

lemma attempt_cases:
  "attempt ns cm existing backoff r =
     (if createErr r = None then (Done None, [Api (CreateConfigMap ns cm), Log BecameTheLeader])
      else if createErr r = Some StatusAlreadyExists then
        (case fst (inspectLeader ns existing r) of
           Some err \<Rightarrow> (Done (Some err), Api (CreateConfigMap ns cm) # snd (inspectLeader ns existing r))
         | None \<Rightarrow> (Continue, Api (CreateConfigMap ns cm) # snd (inspectLeader ns existing r)
                      @ [Sleep (Jitter backoff (2 / 10) (jitterSample r))]))
      else (Done (createErr r),
            [Api (CreateConfigMap ns cm), Log (UnknownErrorCreatingConfigMap (the (createErr r)))]))"
  by (auto simp: attempt_def IsAlreadyExists_def Let_def split: option.splits prod.splits)

lemma sleeps_attempt:
  "sleeps (snd (attempt ns cm existing backoff r)) =
     (if fst (attempt ns cm existing backoff r) = Continue
      then [Jitter backoff (2 / 10) (jitterSample r)] else [])"
  by (simp add: attempt_cases sleeps_append sleeps_inspectLeader split: option.splits)





lemma backoff_fits_int64: "0 < spec_backoff i \<and> 2 * spec_backoff i < 2 ^ 63"
  by (simp add: spec_backoff_def Second_def min_def)


lemma sleeps_ownedByMe: "sleeps (snd (ownedByMe owner os)) = []"
  by (induction os) (auto split: prod.splits)

lemma api_calls_ownedByMe: "api_calls (snd (ownedByMe owner os)) = []"
  by (induction os) (auto split: prod.splits)

lemma sleeps_checkExisting: "sleeps (snd (checkExisting owner existing err)) = []"
  using sleeps_ownedByMe[of owner "cm_OwnerReferences existing"]
  by (auto simp: checkExisting_def split: option.splits prod.splits bool.splits)

lemma api_calls_checkExisting: "api_calls (snd (checkExisting owner existing err)) = []"
  using api_calls_ownedByMe[of owner "cm_OwnerReferences existing"]
  by (auto simp: checkExisting_def split: option.splits prod.splits bool.splits)

lemma sleeps_myOwnerRef: "sleeps (snd (myOwnerRef w ns)) = []"
  by (auto simp: myOwnerRef_def getMyPod_def Let_def split: sum.splits prod.splits)

lemma api_calls_myOwnerRef:
  "api_calls (snd (myOwnerRef w ns)) = (if Getenv w PodNameEnvVar = [] then [] else [GetPod ns (Getenv w PodNameEnvVar)])"
  by (auto simp: myOwnerRef_def getMyPod_def Let_def split: sum.splits prod.splits)

lemma prepare_cases:
  obtains (NoNamespace) err where "getNamespace w = Inl err"
      "prepare w lockName = (Inl (Some err), [Log TryingToBecomeTheLeader])"
  | (NoConfig) ns err where "getNamespace w = Inr ns" "inClusterConfig w = Some err"
      "prepare w lockName = (Inl (Some err), [Log TryingToBecomeTheLeader])"
  | (NoOwner) ns err t1 where "getNamespace w = Inr ns" "inClusterConfig w = None"
      "myOwnerRef w ns = (Inl err, t1)"
      "prepare w lockName = (Inl (Some err), Log TryingToBecomeTheLeader # t1)"
  | (Checked) ns owner t1 existing e s t3 where
      "getNamespace w = Inr ns" "inClusterConfig w = None"
      "myOwnerRef w ns = (Inr owner, t1)"
      "ConfigMaps_Get (lockGet w) = (existing, e)"
      "checkExisting owner existing e = (s, t3)"
      "prepare w lockName =
         (case s of
            Done res \<Rightarrow> Inl res
          | Continue \<Rightarrow>
              Inr (ns, \<lparr>cm_Name = lockName, cm_Namespace = ns, cm_OwnerReferences = [owner]\<rparr>,
                   existing),
          Log TryingToBecomeTheLeader # t1 @ Api (GetConfigMap ns lockName) # t3)"
proof (cases "getNamespace w")
  case (Inl err)
  then show ?thesis using NoNamespace by (simp add: prepare_def)
next
  case (Inr ns)
  note ns = this
  show ?thesis
  proof (cases "inClusterConfig w")
    case (Some err)
    then show ?thesis using ns NoConfig by (simp add: prepare_def)
  next
    case None
    obtain o1 t1 where m: "myOwnerRef w ns = (o1, t1)" by (cases "myOwnerRef w ns")
    show ?thesis
    proof (cases o1)
      case (Inl err)
      then show ?thesis using ns None m NoOwner by (simp add: prepare_def)
    next
      case (Inr owner)
      obtain existing e where g: "ConfigMaps_Get (lockGet w) = (existing, e)"
        by (cases "ConfigMaps_Get (lockGet w)")
      obtain s t3 where c: "checkExisting owner existing e = (s, t3)"
        by (cases "checkExisting owner existing e")
      have "prepare w lockName =
         (case s of
            Done res \<Rightarrow> Inl res
          | Continue \<Rightarrow>
              Inr (ns, \<lparr>cm_Name = lockName, cm_Namespace = ns, cm_OwnerReferences = [owner]\<rparr>,
                   existing),
          Log TryingToBecomeTheLeader # t1 @ Api (GetConfigMap ns lockName) # t3)"
        using ns None m Inr c g
        by (cases s) (simp_all add: prepare_def)
      moreover have "myOwnerRef w ns = (Inr owner, t1)" using m Inr by simp
      ultimately show ?thesis using Checked[OF ns None _ g c] by blast
    qed
  qed
qed

lemma sleeps_prepare: "sleeps (snd (prepare w lockName)) = []"
proof (cases rule: prepare_cases[of w lockName])
  case (NoNamespace err)
  then show ?thesis by simp
next
  case (NoConfig ns err)
  then show ?thesis by simp
next
  case (NoOwner ns err t1)
  then show ?thesis using sleeps_myOwnerRef[of w ns] by simp
next
  case (Checked ns owner t1 existing e s t3)
  then show ?thesis
    using sleeps_myOwnerRef[of w ns] sleeps_checkExisting[of owner existing e]
    by (simp add: sleeps_append)
qed

lemma Become_cases:
  obtains (Returned) res t where "prepare w lockName = (Inl res, t)"
      "Become w lockName = (Return res, t)"
  | (Looped) ns cm existing t where "prepare w lockName = (Inr (ns, cm, existing), t)"
      "Become w lockName =
         (fst (tryCreate ns cm existing Second (rounds w)),
          t @ snd (tryCreate ns cm existing Second (rounds w)))"
proof -
  obtain x t where p: "prepare w lockName = (x, t)" by (cases "prepare w lockName")
  show ?thesis
  proof (cases x)
    case (Inl res)
    with p show ?thesis using Returned[of res t] by (simp add: Become_def)
  next
    case (Inr y)
    obtain ns cm existing where y: "y = (ns, cm, existing)" by (cases y)
    with p Inr show ?thesis using Looped[of ns cm existing t]
      by (simp add: Become_def split: prod.splits)
  qed
qed



lemma api_calls_inspectLeader:
  "api_calls (snd (inspectLeader ns existing r)) =
     (if length (cm_OwnerReferences existing) \<noteq> 1
         \<or> or_Kind (cm_OwnerReferences existing ! 0) \<noteq> ''Pod'' then []
      else GetPod ns (or_Name (cm_OwnerReferences existing ! 0))
        # (case leaderPodGet r of
             Inl err \<Rightarrow> []
           | Inr leaderPod \<Rightarrow>
               if isPodEvicted leaderPod \<and> pod_DeletionTimestamp leaderPod = None
               then [DeletePod ns (pod_Name leaderPod)] else []))"
  by (simp add: inspectLeader_def Let_def api_calls_append split: sum.splits option.splits)

lemma api_calls_attempt:
  "api_calls (snd (attempt ns cm existing backoff r)) =
     CreateConfigMap ns cm
       # (if IsAlreadyExists (createErr r) then api_calls (snd (inspectLeader ns existing r))
          else [])"
  by (simp add: attempt_cases IsAlreadyExists_def api_calls_append split: option.splits)

lemma api_calls_tryCreate:
  "c \<in> set (api_calls (snd (tryCreate ns cm existing backoff rs))) \<Longrightarrow>
     c = CreateConfigMap ns cm
     \<or> (\<exists>r \<in> set rs. c \<in> set (api_calls (snd (inspectLeader ns existing r))))"
proof (induction rs arbitrary: backoff)
  case Nil
  then show ?case by simp
next
  case (Cons r rs)
  obtain s t where a: "attempt ns cm existing backoff r = (s, t)"
    by (cases "attempt ns cm existing backoff r")
  have t: "c \<in> set (api_calls t) \<Longrightarrow> c = CreateConfigMap ns cm
      \<or> c \<in> set (api_calls (snd (inspectLeader ns existing r)))"
    using api_calls_attempt[of ns cm existing backoff r] a by (auto split: if_splits)
  show ?case
  proof (cases s)
    case (Done res)
    then show ?thesis using Cons.prems a t by auto
  next
    case Continue
    then have "c \<in> set (api_calls t)
        \<or> c \<in> set (api_calls (snd (tryCreate ns cm existing (nextBackoff backoff) rs)))"
      using Cons.prems a by (auto simp: api_calls_append split: prod.splits)
    then show ?thesis using t Cons.IH[of "nextBackoff backoff"] by auto
  qed
qed

lemma prepare_Inr:
  assumes "prepare w lockName = (Inr (ns, cm, existing), t)"
  shows "getNamespace w = Inr ns \<and> inClusterConfig w = None
    \<and> existing = fst (ConfigMaps_Get (lockGet w))
    \<and> Getenv w PodNameEnvVar \<noteq> []
    \<and> api_calls t = [GetPod ns (Getenv w PodNameEnvVar), GetConfigMap ns lockName]
    \<and> (\<exists>owner. fst (myOwnerRef w ns) = Inr owner
          \<and> cm = \<lparr>cm_Name = lockName, cm_Namespace = ns, cm_OwnerReferences = [owner]\<rparr>)"
proof (cases rule: prepare_cases[of w lockName])
  case (NoNamespace err)
  then show ?thesis using assms by simp
next
  case (NoConfig ns err)
  then show ?thesis using assms by simp
next
  case (NoOwner ns err t1)
  then show ?thesis using assms by simp
next
  case (Checked ns' owner t1 existing' e s t3)
  have env: "Getenv w PodNameEnvVar \<noteq> []"
    using Checked(3) by (auto simp: myOwnerRef_def getMyPod_def Let_def split: if_splits)
  show ?thesis
  proof (cases s)
    case (Done res)
    then show ?thesis using Checked assms by simp
  next
    case Continue
    then show ?thesis
      using Checked assms env api_calls_myOwnerRef[of w ns']
        api_calls_checkExisting[of owner existing' e]
      by (simp add: api_calls_append)
  qed
qed

lemma api_calls_prepare:
  "api_calls (snd (prepare w lockName)) = []
   \<or> (\<exists>ns. api_calls (snd (prepare w lockName)) = [GetPod ns (Getenv w PodNameEnvVar)])
   \<or> (\<exists>ns. api_calls (snd (prepare w lockName))
          = [GetPod ns (Getenv w PodNameEnvVar), GetConfigMap ns lockName])"
proof (cases rule: prepare_cases[of w lockName])
  case (NoNamespace err)
  then show ?thesis by simp
next
  case (NoConfig ns err)
  then show ?thesis by simp
next
  case (NoOwner ns err t1)
  then show ?thesis using api_calls_myOwnerRef[of w ns] by (auto split: if_splits)
next
  case (Checked ns owner t1 existing e s t3)
  have env: "Getenv w PodNameEnvVar \<noteq> []"
    using Checked(3) by (auto simp: myOwnerRef_def getMyPod_def Let_def split: if_splits)
  then show ?thesis
    using Checked api_calls_myOwnerRef[of w ns] api_calls_checkExisting[of owner existing e]
    by (simp add: api_calls_append)
qed

lemma tryCreate_starts:
  "snd (tryCreate ns cm existing backoff rs) = []
   \<or> (\<exists>es. snd (tryCreate ns cm existing backoff rs) = Api (CreateConfigMap ns cm) # es)"
proof (cases rs)
  case Nil
  then show ?thesis by simp
next
  case (Cons r rs')
  have "\<exists>es. snd (attempt ns cm existing backoff r) = Api (CreateConfigMap ns cm) # es"
    by (simp add: attempt_cases split: option.splits)
  then show ?thesis using Cons
    by (auto split: prod.splits step.splits)
qed

lemma afterSleeps_no_sleep: "sleeps xs = [] \<Longrightarrow> afterSleeps (xs @ ys) = afterSleeps ys"
  by (induction xs rule: sleeps.induct) simp_all

lemma afterSleeps_attempt_then:
  assumes "fst (attempt ns cm existing backoff r) = Continue"
  shows "afterSleeps (snd (attempt ns cm existing backoff r) @ ys)
    = (case ys of [] \<Rightarrow> [] | y # ys' \<Rightarrow> y # afterSleeps ys)"
proof -
  from assms have "snd (attempt ns cm existing backoff r)
      = (Api (CreateConfigMap ns cm) # snd (inspectLeader ns existing r))
          @ [Sleep (Jitter backoff (2 / 10) (jitterSample r))]"
    by (simp add: attempt_cases split: option.splits if_splits)
  moreover have "sleeps (Api (CreateConfigMap ns cm) # snd (inspectLeader ns existing r)) = []"
    by (simp add: sleeps_inspectLeader)
  ultimately show ?thesis
    using afterSleeps_no_sleep[of "Api (CreateConfigMap ns cm) # snd (inspectLeader ns existing r)"
        "Sleep (Jitter backoff (2 / 10) (jitterSample r)) # ys"]
    by (cases ys) simp_all
qed

lemma afterSleeps_tryCreate:
  "e \<in> set (afterSleeps (snd (tryCreate ns cm existing backoff rs))) \<Longrightarrow>
     e = Api (CreateConfigMap ns cm)"
proof (induction rs arbitrary: backoff)
  case Nil
  then show ?case by simp
next
  case (Cons r rs)
  obtain s t where a: "attempt ns cm existing backoff r = (s, t)"
    by (cases "attempt ns cm existing backoff r")
  show ?case
  proof (cases s)
    case (Done res)
    then have "sleeps t = []"
      using sleeps_attempt[of ns cm existing backoff r] a by simp
    then have "afterSleeps t = []" using afterSleeps_no_sleep[of t "[]"] by simp
    then show ?thesis using Cons.prems a Done by simp
  next
    case Continue
    let ?rest = "snd (tryCreate ns cm existing (nextBackoff backoff) rs)"
    have tr: "snd (tryCreate ns cm existing backoff (r # rs)) = t @ ?rest"
      using a Continue by (simp split: prod.splits)
    have "afterSleeps (t @ ?rest) = (case ?rest of [] \<Rightarrow> [] | y # ys' \<Rightarrow> y # afterSleeps ?rest)"
      using afterSleeps_attempt_then[of ns cm existing backoff r ?rest] a Continue by simp
    then have "e \<in> set (afterSleeps ?rest) \<or> (\<exists>es. ?rest = e # es)"
      using Cons.prems tr by (auto split: list.splits)
    then show ?thesis
      using Cons.IH[of "nextBackoff backoff"] tryCreate_starts[of ns cm existing "nextBackoff backoff" rs]
      by auto
  qed
qed

lemma singleton_owner: "length xs = 1 \<Longrightarrow> \<exists>x. xs = [x]"
  by (cases xs) auto

lemma loop_call_kinds:
  assumes "c \<in> set (api_calls (snd (tryCreate ns cm existing backoff rs)))"
  shows "c = CreateConfigMap ns cm
    \<or> (\<exists>holder. cm_OwnerReferences existing = [holder] \<and> or_Kind holder = ''Pod''
          \<and> (c = GetPod ns (or_Name holder)
              \<or> (\<exists>r \<in> set rs. \<exists>leaderPod. leaderPodGet r = Inr leaderPod
                    \<and> isPodEvicted leaderPod \<and> pod_DeletionTimestamp leaderPod = None
                    \<and> c = DeletePod ns (pod_Name leaderPod))))"
proof -
  from api_calls_tryCreate[OF assms] show ?thesis
  proof
    assume "c = CreateConfigMap ns cm"
    then show ?thesis by simp
  next
    assume "\<exists>r \<in> set rs. c \<in> set (api_calls (snd (inspectLeader ns existing r)))"
    then obtain r where r: "r \<in> set rs"
      and c: "c \<in> set (api_calls (snd (inspectLeader ns existing r)))" by blast
    from c have len: "length (cm_OwnerReferences existing) = 1"
      and kind: "or_Kind (cm_OwnerReferences existing ! 0) = ''Pod''"
      by (auto simp: api_calls_inspectLeader split: if_splits)
    from singleton_owner[OF len] obtain holder where h: "cm_OwnerReferences existing = [holder]"
      by blast
    from kind h have kind': "or_Kind holder = ''Pod''" by simp
    show ?thesis
    proof (cases "leaderPodGet r")
      case (Inl err)
      then show ?thesis using c h kind' by (simp add: api_calls_inspectLeader)
    next
      case (Inr leaderPod)
      then have "c = GetPod ns (or_Name holder)
          \<or> (isPodEvicted leaderPod \<and> pod_DeletionTimestamp leaderPod = None
              \<and> c = DeletePod ns (pod_Name leaderPod))"
        using c h kind by (auto simp: api_calls_inspectLeader split: if_splits)
      then show ?thesis using h kind' r Inr by blast
    qed
  qed
qed

lemma loop_no_fetch:
  "filter isGetConfigMap (api_calls (snd (tryCreate ns cm existing backoff rs))) = []"
proof -
  have "\<not> isGetConfigMap c" if "c \<in> set (api_calls (snd (tryCreate ns cm existing backoff rs)))" for c
    using loop_call_kinds[OF that] by auto
  then show ?thesis by (simp add: filter_empty_conv)
qed

lemma afterSleeps_nil: "sleeps xs = [] \<Longrightarrow> afterSleeps xs = []"
  using afterSleeps_no_sleep[of xs "[]"] by simp

lemma fst_ownedByMe:
  "fst (ownedByMe owner os) = (\<exists>existingOwner \<in> set os. or_Name existingOwner = or_Name owner)"
  by (induction os) (auto split: prod.splits)

lemma tryCreate_Continue:
  "fst (attempt ns cm existing backoff r) = Continue \<Longrightarrow>
     tryCreate ns cm existing backoff (r # rs) =
       (fst (tryCreate ns cm existing (nextBackoff backoff) rs),
        snd (attempt ns cm existing backoff r)
          @ snd (tryCreate ns cm existing (nextBackoff backoff) rs))"
  by (cases "attempt ns cm existing backoff r") (auto split: prod.splits)

subsection \<open>The fetch of the lock\<close>

text \<open>
  The code never reads the lock again. In every run the lock is fetched at most once,
  and never after the first \<open>Create\<close>: after every sleep the next thing \<open>Become\<close> does
  is the \<open>Create\<close> call again. A lookup of a pod asks for the process's own pod or for
  the single owner of the lock as the first \<open>Get\<close> returned it.
\<close>

lemma lock_fetched_once:
  "length (filter isGetConfigMap (api_calls (snd (Become w lockName)))) \<le> 1
   \<and> filter isGetConfigMap
        (dropWhile (\<lambda>c. \<not> isCreateConfigMap c) (api_calls (snd (Become w lockName)))) = []
   \<and> (\<forall>e \<in> set (afterSleeps (snd (Become w lockName))). \<exists>ns cm. e = Api (CreateConfigMap ns cm))
   \<and> (\<forall>c \<in> set (api_calls (snd (Become w lockName))). isGetPod c \<longrightarrow>
         (\<exists>ns. c = GetPod ns (Getenv w PodNameEnvVar))
         \<or> (\<exists>ns holder. cm_OwnerReferences (fst (ConfigMaps_Get (lockGet w))) = [holder]
               \<and> c = GetPod ns (or_Name holder)))"
proof (cases rule: Become_cases[of w lockName])
  case (Returned res t)
  have t: "sleeps t = []" using sleeps_prepare[of w lockName] Returned by simp
  have "api_calls t = [] \<or> (\<exists>ns. api_calls t = [GetPod ns (Getenv w PodNameEnvVar)])
      \<or> (\<exists>ns. api_calls t = [GetPod ns (Getenv w PodNameEnvVar), GetConfigMap ns lockName])"
    using api_calls_prepare[of w lockName] Returned by simp
  then show ?thesis using Returned afterSleeps_nil[OF t] by auto
next
  case (Looped ns cm existing t)
  let ?loop = "snd (tryCreate ns cm existing Second (rounds w))"
  note p = prepare_Inr[OF Looped(1)]
  have t: "sleeps t = []" using sleeps_prepare[of w lockName] Looped by simp
  have calls: "api_calls (snd (Become w lockName))
      = [GetPod ns (Getenv w PodNameEnvVar), GetConfigMap ns lockName] @ api_calls ?loop"
    using Looped p by (simp add: api_calls_append)
  have nofetch: "filter isGetConfigMap (api_calls ?loop) = []" by (rule loop_no_fetch)
  have one: "length (filter isGetConfigMap (api_calls (snd (Become w lockName)))) \<le> 1"
    using calls nofetch by simp
  have "set (dropWhile (\<lambda>c. \<not> isCreateConfigMap c) (api_calls ?loop)) \<subseteq> set (api_calls ?loop)"
    by (auto dest: set_dropWhileD)
  then have "filter isGetConfigMap (dropWhile (\<lambda>c. \<not> isCreateConfigMap c) (api_calls ?loop)) = []"
    using nofetch by (auto simp: filter_empty_conv)
  then have two: "filter isGetConfigMap
        (dropWhile (\<lambda>c. \<not> isCreateConfigMap c) (api_calls (snd (Become w lockName)))) = []"
    using calls by simp
  have "afterSleeps (snd (Become w lockName)) = afterSleeps ?loop"
    using Looped afterSleeps_no_sleep[OF t] by simp
  then have three: "\<forall>e \<in> set (afterSleeps (snd (Become w lockName))).
      \<exists>ns cm. e = Api (CreateConfigMap ns cm)"
    using afterSleeps_tryCreate[of _ ns cm existing Second "rounds w"] by auto
  have four: "\<forall>c \<in> set (api_calls (snd (Become w lockName))). isGetPod c \<longrightarrow>
         (\<exists>ns. c = GetPod ns (Getenv w PodNameEnvVar))
         \<or> (\<exists>ns holder. cm_OwnerReferences (fst (ConfigMaps_Get (lockGet w))) = [holder]
               \<and> c = GetPod ns (or_Name holder))"
  proof (intro ballI impI)
    fix c assume c: "c \<in> set (api_calls (snd (Become w lockName)))" and g: "isGetPod c"
    from c calls have "c = GetPod ns (Getenv w PodNameEnvVar) \<or> c = GetConfigMap ns lockName
        \<or> c \<in> set (api_calls ?loop)" by auto
    then show "(\<exists>ns. c = GetPod ns (Getenv w PodNameEnvVar))
         \<or> (\<exists>ns holder. cm_OwnerReferences (fst (ConfigMaps_Get (lockGet w))) = [holder]
               \<and> c = GetPod ns (or_Name holder))"
      using g p loop_call_kinds[of c ns cm existing Second "rounds w"] by auto
  qed
  show ?thesis using one two three four by (intro conjI)
qed

text \<open>
  C1. The claim asks that every iteration that observes \<open>AlreadyExists\<close> decides on the
  lock as it is read in that iteration. The code decides on the variable \<open>existing\<close> of
  line 56. In the first run the lock is read once, before the first \<open>Create\<close>, and both
  conflicting iterations look up the owner \<open>a\<close> of that reading. In the second run the
  first \<open>Get\<close> answers \<open>NotFound\<close>: both conflicting iterations inspect the zero-valued
  lock, log that it must have exactly one owner reference, and never look at the owner
  of the lock that made \<open>Create\<close> fail.
\<close>

theorem stale_lock_runs:
  "api_calls (snd (Become
      (exampleWorld (Inr (lockOf [refA])) [conflictRound, conflictRound, wonRound]) ''lock''))
   = [GetPod ''ns'' ''me'', GetConfigMap ''ns'' ''lock'',
      CreateConfigMap ''ns'' (lockOf [refMe]), GetPod ''ns'' ''a'',
      CreateConfigMap ''ns'' (lockOf [refMe]), GetPod ''ns'' ''a'',
      CreateConfigMap ''ns'' (lockOf [refMe])]
   \<and> Become (exampleWorld (Inl StatusNotFound) [evictedRound, evictedRound, wonRound]) ''lock''
   = (Return None,
      [Log TryingToBecomeTheLeader, Api (GetPod ''ns'' ''me''),
       Api (GetConfigMap ''ns'' ''lock''), Log NoPreExistingLock,
       Api (CreateConfigMap ''ns'' (lockOf [refMe])),
       Log (MustHaveExactlyOneOwner zeroConfigMap), Sleep 1000000000,
       Api (CreateConfigMap ''ns'' (lockOf [refMe])),
       Log (MustHaveExactlyOneOwner zeroConfigMap), Sleep 2000000000,
       Api (CreateConfigMap ''ns'' (lockOf [refMe])), Log BecameTheLeader])"
  by (simp add: model_defs example_defs)

subsection \<open>Malformed locks\<close>

text \<open>
  C2, as amended. When \<open>Create\<close> answers \<open>AlreadyExists\<close> and the lock that was read has
  no or several owner references, the iteration logs the malformed lock, sleeps and
  goes on with the next iteration; it looks no pod up, deletes none and does not return.
  The first check of the lock does not count the owner references: it returns success
  when some owner reference carries the name of the process's own pod, and goes on to
  the creation otherwise.
\<close>

theorem malformed_in_conflict:
  assumes "length (cm_OwnerReferences existing) \<noteq> 1"
    and "IsAlreadyExists (createErr r)"
  shows "attempt ns cm existing backoff r =
      (Continue,
       [Api (CreateConfigMap ns cm), Log (MustHaveExactlyOneOwner existing),
        Sleep (Jitter backoff (2 / 10) (jitterSample r))])
    \<and> tryCreate ns cm existing backoff (r # rs) =
      (fst (tryCreate ns cm existing (nextBackoff backoff) rs),
       [Api (CreateConfigMap ns cm), Log (MustHaveExactlyOneOwner existing),
        Sleep (Jitter backoff (2 / 10) (jitterSample r))]
         @ snd (tryCreate ns cm existing (nextBackoff backoff) rs))
    \<and> fst (checkExisting owner existing None) =
      (if \<exists>existingOwner \<in> set (cm_OwnerReferences existing).
            or_Name existingOwner = or_Name owner
       then Done None else Continue)"
proof -
  have a: "attempt ns cm existing backoff r =
      (Continue,
       [Api (CreateConfigMap ns cm), Log (MustHaveExactlyOneOwner existing),
        Sleep (Jitter backoff (2 / 10) (jitterSample r))])"
    using assms by (simp add: attempt_cases IsAlreadyExists_def inspectLeader_def Let_def)
  have b: "tryCreate ns cm existing backoff (r # rs) =
      (fst (tryCreate ns cm existing (nextBackoff backoff) rs),
       [Api (CreateConfigMap ns cm), Log (MustHaveExactlyOneOwner existing),
        Sleep (Jitter backoff (2 / 10) (jitterSample r))]
         @ snd (tryCreate ns cm existing (nextBackoff backoff) rs))"
    using tryCreate_Continue[of ns cm existing backoff r rs] a by simp
  have c: "fst (checkExisting owner existing None) =
      (if \<exists>existingOwner \<in> set (cm_OwnerReferences existing).
            or_Name existingOwner = or_Name owner
       then Done None else Continue)"
    using fst_ownedByMe[of owner "cm_OwnerReferences existing"]
    by (auto simp: checkExisting_def split: prod.splits bool.splits)
  show ?thesis using a b c by (intro conjI)
qed

theorem malformed_in_conflict_witness:
  "attempt ''ns'' (lockOf [refMe]) (lockOf [refA, refB]) Second evictedRound =
      (Continue,
       [Api (CreateConfigMap ''ns'' (lockOf [refMe])),
        Log (MustHaveExactlyOneOwner (lockOf [refA, refB])), Sleep 1000000000])
   \<and> fst (checkExisting refMe (lockOf [refA, refB]) None) = Continue"
  using malformed_in_conflict[of "lockOf [refA, refB]" evictedRound "''ns''" "lockOf [refMe]"
      Second "[]" refMe]
  by (simp add: model_defs example_defs)

text \<open>
  C2 as stated fails in the first check: a lock with two owner references, one of them
  the process's own pod, makes \<open>Become\<close> return success at once, with no log of a malformed
  lock and no sleep.
\<close>

theorem two_owners_counterexample:
  "Become (exampleWorld (Inr (lockOf [refA, refMe])) [conflictRound]) ''lock'' =
     (Return None,
      [Log TryingToBecomeTheLeader, Api (GetPod ''ns'' ''me''),
       Api (GetConfigMap ''ns'' ''lock''), Log (FoundExistingLock ''a''),
       Log FoundExistingLockWithMyName, Log ContinuingAsTheLeader])"
  by (simp add: model_defs example_defs)



subsection \<open>The backoff\<close>



subsection \<open>Restart of the leader\<close>

text \<open>
  C4. When the first \<open>Get\<close> of the lock succeeds and some owner reference of the lock
  carries the name of the process's own pod, \<open>Become\<close> returns \<open>nil\<close> and never calls
  \<open>Create\<close>: its only API calls are the lookup of its own pod and the \<open>Get\<close> of the lock.
\<close>

theorem restart_keeps_lock:
  assumes "namespaceFile w = Inr nsBytes"
    and "inClusterConfig w = None"
    and "Getenv w PodNameEnvVar \<noteq> []"
    and "myPodGet w = Inr myPod"
    and "lockGet w = Inr existing"
    and "\<exists>existingOwner \<in> set (cm_OwnerReferences existing). or_Name existingOwner = pod_Name myPod"
  shows "fst (Become w lockName) = Return None
    \<and> filter isCreateConfigMap (api_calls (snd (Become w lockName))) = []
    \<and> api_calls (snd (Become w lockName))
        = [GetPod (TrimSpace nsBytes) (Getenv w PodNameEnvVar), GetConfigMap (TrimSpace nsBytes) lockName]"
proof -
  let ?owner = "\<lparr>or_APIVersion = ''v1'', or_Kind = ''Pod'',
                or_Name = pod_Name myPod, or_UID = pod_UID myPod\<rparr>"
  have ns: "getNamespace w = Inr (TrimSpace nsBytes)" using assms(1) by (simp add: getNamespace_def)
  have m: "myOwnerRef w (TrimSpace nsBytes)
      = (Inr ?owner, [Api (GetPod (TrimSpace nsBytes) (Getenv w PodNameEnvVar))])"
    using assms(3,4) by (simp add: myOwnerRef_def getMyPod_def)
  have "fst (ownedByMe ?owner (cm_OwnerReferences existing))"
    using assms(6) by (simp add: fst_ownedByMe)
  then obtain t3 where o: "ownedByMe ?owner (cm_OwnerReferences existing) = (True, t3)"
    by (cases "ownedByMe ?owner (cm_OwnerReferences existing)") auto
  have t3: "api_calls t3 = []"
    using api_calls_ownedByMe[of ?owner "cm_OwnerReferences existing"] o by simp
  have "prepare w lockName =
      (Inl None, Log TryingToBecomeTheLeader # Api (GetPod (TrimSpace nsBytes) (Getenv w PodNameEnvVar))
         # Api (GetConfigMap (TrimSpace nsBytes) lockName) # t3)"
    using ns assms(2,5) m o
    by (simp add: prepare_def ConfigMaps_Get_def checkExisting_def)
  then show ?thesis using t3 by (simp add: Become_def)
qed

theorem restart_keeps_lock_witness:
  "Become (exampleWorld (Inr (lockOf [refMe])) [wonRound]) ''lock'' =
     (Return None,
      [Log TryingToBecomeTheLeader, Api (GetPod ''ns'' ''me''),
       Api (GetConfigMap ''ns'' ''lock''),
       Log FoundExistingLockWithMyName, Log ContinuingAsTheLeader])"
  using restart_keeps_lock[of "exampleWorld (Inr (lockOf [refMe])) [wonRound]"
      "''ns'' @ [CHR 0x0A]" podMe "lockOf [refMe]" "''lock''"]
  by (simp add: model_defs example_defs)

subsection \<open>The evicted leader\<close>

text \<open>
  Lines 93 to 117 on the lock that was read at the start. In an iteration where
  \<open>Create\<close> answers \<open>AlreadyExists\<close>, \<open>existing\<close> has a single owner reference of kind
  \<open>Pod\<close> and the owner's pod is found: the iteration deletes the pod that was found,
  once, when its phase is \<open>Failed\<close>, its reason \<open>Evicted\<close> and it has no deletion
  timestamp, and deletes nothing otherwise. An error of the \<open>Delete\<close> is logged; in every
  case the iteration ends with the sleep and the loop goes on.
\<close>

lemma evicted_holder_deleted:
  assumes "IsAlreadyExists (createErr r)"
    and "cm_OwnerReferences existing = [holder]"
    and "or_Kind holder = ''Pod''"
    and "leaderPodGet r = Inr leaderPod"
  shows "filter isDeletePod (api_calls (snd (attempt ns cm existing backoff r))) =
      (if pod_Phase leaderPod = ''Failed'' \<and> pod_Reason leaderPod = ''Evicted''
          \<and> pod_DeletionTimestamp leaderPod = None
       then [DeletePod ns (pod_Name leaderPod)] else [])
    \<and> fst (attempt ns cm existing backoff r) = Continue
    \<and> (\<forall>err. pod_Phase leaderPod = ''Failed'' \<and> pod_Reason leaderPod = ''Evicted''
          \<and> pod_DeletionTimestamp leaderPod = None \<and> leaderPodDelete r = Some err
          \<longrightarrow> Log (LeaderPodCouldNotBeDeleted err) \<in> set (snd (attempt ns cm existing backoff r)))
    \<and> last (snd (attempt ns cm existing backoff r))
        = Sleep (Jitter backoff (2 / 10) (jitterSample r))
    \<and> tryCreate ns cm existing backoff (r # rs) =
        (fst (tryCreate ns cm existing (nextBackoff backoff) rs),
         snd (attempt ns cm existing backoff r)
           @ snd (tryCreate ns cm existing (nextBackoff backoff) rs))"
proof -
  have i: "fst (inspectLeader ns existing r) = None"
    using assms by (simp add: inspectLeader_def Let_def)
  have c: "fst (attempt ns cm existing backoff r) = Continue"
    using assms(1) i by (simp add: attempt_cases IsAlreadyExists_def)
  have t: "snd (attempt ns cm existing backoff r) =
      Api (CreateConfigMap ns cm) # snd (inspectLeader ns existing r)
        @ [Sleep (Jitter backoff (2 / 10) (jitterSample r))]"
    using assms(1) i by (simp add: attempt_cases IsAlreadyExists_def)
  have d: "filter isDeletePod (api_calls (snd (attempt ns cm existing backoff r))) =
      (if pod_Phase leaderPod = ''Failed'' \<and> pod_Reason leaderPod = ''Evicted''
          \<and> pod_DeletionTimestamp leaderPod = None
       then [DeletePod ns (pod_Name leaderPod)] else [])"
    using assms
    by (simp add: api_calls_attempt api_calls_inspectLeader isPodEvicted_def PodFailed_def)
  have l: "\<forall>err. pod_Phase leaderPod = ''Failed'' \<and> pod_Reason leaderPod = ''Evicted''
          \<and> pod_DeletionTimestamp leaderPod = None \<and> leaderPodDelete r = Some err
          \<longrightarrow> Log (LeaderPodCouldNotBeDeleted err) \<in> set (snd (attempt ns cm existing backoff r))"
    using assms t by (simp add: inspectLeader_def Let_def isPodEvicted_def PodFailed_def)
  have s: "last (snd (attempt ns cm existing backoff r))
        = Sleep (Jitter backoff (2 / 10) (jitterSample r))"
    using t by simp
  show ?thesis using d c l s tryCreate_Continue[OF c] by (intro conjI)
qed

text \<open>
  C5. The claim asks for one \<open>Delete\<close> of the holder in a conflict cycle whose holder is
  evicted. In the first run no lock exists at the first \<open>Get\<close>; then every \<open>Create\<close>
  answers \<open>AlreadyExists\<close> and the holder's pod is \<open>Failed\<close> with reason \<open>Evicted\<close> and no
  deletion timestamp. \<open>Become\<close> inspects the zero-valued lock of the first \<open>Get\<close>: it
  never looks the holder up and never deletes it. In the second run the same rounds
  follow a first \<open>Get\<close> that returned the lock of \<open>a\<close>, and each cycle deletes \<open>a\<close> once.
\<close>

theorem evicted_holder_not_reclaimed:
  "Become (exampleWorld (Inl StatusNotFound) [evictedRound, evictedRound]) ''lock''
   = (StillWaiting,
      [Log TryingToBecomeTheLeader, Api (GetPod ''ns'' ''me''),
       Api (GetConfigMap ''ns'' ''lock''), Log NoPreExistingLock,
       Api (CreateConfigMap ''ns'' (lockOf [refMe])),
       Log (MustHaveExactlyOneOwner zeroConfigMap), Sleep 1000000000,
       Api (CreateConfigMap ''ns'' (lockOf [refMe])),
       Log (MustHaveExactlyOneOwner zeroConfigMap), Sleep 2000000000])
   \<and> filter isDeletePod (api_calls (snd (Become
        (exampleWorld (Inl StatusNotFound) [evictedRound, evictedRound]) ''lock''))) = []
   \<and> filter isDeletePod (api_calls (snd (Become
        (exampleWorld (Inr (lockOf [refA])) [evictedRound, evictedRound]) ''lock'')))
     = [DeletePod ''ns'' ''a'', DeletePod ''ns'' ''a'']"
  by (simp add: model_defs example_defs)




subsection \<open>The identity of the process\<close>

text \<open>
  C8. When \<open>POD_NAME\<close> is unset (or empty: \<open>os.Getenv\<close> returns the empty string for
  both), \<open>Become\<close> makes no API call and returns an error: the error of reading the
  namespace file or of loading the in-cluster configuration when one of these fails
  first, and the error that \<open>POD_NAME\<close> is not set otherwise.
\<close>

theorem pod_name_not_set:
  assumes "Getenv w PodNameEnvVar = []"
  shows "api_calls (snd (Become w lockName)) = []
    \<and> fst (Become w lockName) =
        Return (Some (case namespaceFile w of
                        Inl err \<Rightarrow> if err = ErrNotExist then ErrNamespaceNotFound else err
                      | Inr nsBytes \<Rightarrow>
                          (case inClusterConfig w of
                             Some err \<Rightarrow> err
                           | None \<Rightarrow> ErrPodNameNotSet)))"
  using assms
  by (simp add: Become_def prepare_def getNamespace_def myOwnerRef_def getMyPod_def
      IsNotExist_def split: sum.splits option.splits)

theorem pod_name_not_set_witness:
  "Become ((exampleWorld (Inl StatusNotFound) [wonRound])\<lparr>environ := Map.empty\<rparr>) ''lock'' =
     (Return (Some ErrPodNameNotSet), [Log TryingToBecomeTheLeader])"
  using pod_name_not_set[of "(exampleWorld (Inl StatusNotFound) [wonRound])\<lparr>environ := Map.empty\<rparr>"
      "''lock''"]
  by (simp add: model_defs example_defs)

subsection \<open>No lock at the start\<close>

text \<open>
  C10. When the first \<open>Get\<close> of the lock answers \<open>NotFound\<close>, the retry loop runs on
  the zero-valued lock, which has no owner reference: every iteration that observes
  \<open>AlreadyExists\<close> logs the malformed lock and sleeps, and the API calls of the whole run
  are the lookup of the process's own pod, the \<open>Get\<close> of the lock and then \<open>Create\<close>
  calls only; no owner's pod is ever looked up or deleted.
\<close>

theorem not_found_never_inspects:
  assumes "namespaceFile w = Inr nsBytes"
    and "inClusterConfig w = None"
    and "Getenv w PodNameEnvVar \<noteq> []"
    and "myPodGet w = Inr myPod"
    and "lockGet w = Inl err"
    and "IsNotFound (Some err)"
    and "ns = TrimSpace nsBytes"
    and "cm = \<lparr>cm_Name = lockName, cm_Namespace = ns,
               cm_OwnerReferences = [\<lparr>or_APIVersion = ''v1'', or_Kind = ''Pod'',
                 or_Name = pod_Name myPod, or_UID = pod_UID myPod\<rparr>]\<rparr>"
  shows "Become w lockName =
      (fst (tryCreate ns cm zeroConfigMap Second (rounds w)),
       [Log TryingToBecomeTheLeader, Api (GetPod ns (Getenv w PodNameEnvVar)),
        Api (GetConfigMap ns lockName), Log NoPreExistingLock]
         @ snd (tryCreate ns cm zeroConfigMap Second (rounds w)))
    \<and> (\<exists>k. api_calls (snd (Become w lockName)) =
          GetPod ns (Getenv w PodNameEnvVar) # GetConfigMap ns lockName
            # replicate k (CreateConfigMap ns cm))
    \<and> (\<forall>r backoff. IsAlreadyExists (createErr r) \<longrightarrow>
          attempt ns cm zeroConfigMap backoff r =
            (Continue,
             [Api (CreateConfigMap ns cm), Log (MustHaveExactlyOneOwner zeroConfigMap),
              Sleep (Jitter backoff (2 / 10) (jitterSample r))]))"
proof -
  let ?owner = "\<lparr>or_APIVersion = ''v1'', or_Kind = ''Pod'',
                or_Name = pod_Name myPod, or_UID = pod_UID myPod\<rparr>"
  let ?loop = "tryCreate ns cm zeroConfigMap Second (rounds w)"
  have nsp: "getNamespace w = Inr ns" using assms(1,7) by (simp add: getNamespace_def)
  have m: "myOwnerRef w ns = (Inr ?owner, [Api (GetPod ns (Getenv w PodNameEnvVar))])"
    using assms(3,4) by (simp add: myOwnerRef_def getMyPod_def)
  have p: "prepare w lockName =
      (Inr (ns, cm, zeroConfigMap),
       [Log TryingToBecomeTheLeader, Api (GetPod ns (Getenv w PodNameEnvVar)),
        Api (GetConfigMap ns lockName), Log NoPreExistingLock])"
    using nsp assms(2,5,6,8) m
    by (simp add: prepare_def ConfigMaps_Get_def checkExisting_def)
  have one: "Become w lockName =
      (fst ?loop,
       [Log TryingToBecomeTheLeader, Api (GetPod ns (Getenv w PodNameEnvVar)),
        Api (GetConfigMap ns lockName), Log NoPreExistingLock] @ snd ?loop)"
    using p by (simp add: Become_def split: prod.splits)
  have "c = CreateConfigMap ns cm" if "c \<in> set (api_calls (snd ?loop))" for c
    using loop_call_kinds[OF that] by (simp add: zeroConfigMap_def)
  then have "replicate (length (api_calls (snd ?loop))) (CreateConfigMap ns cm)
      = api_calls (snd ?loop)"
    by (intro replicate_length_same) auto
  then have two: "\<exists>k. api_calls (snd (Become w lockName)) =
          GetPod ns (Getenv w PodNameEnvVar) # GetConfigMap ns lockName
            # replicate k (CreateConfigMap ns cm)"
    using one by (auto simp: api_calls_append intro: exI[of _ "length (api_calls (snd ?loop))"])
  have three: "\<forall>r backoff. IsAlreadyExists (createErr r) \<longrightarrow>
          attempt ns cm zeroConfigMap backoff r =
            (Continue,
             [Api (CreateConfigMap ns cm), Log (MustHaveExactlyOneOwner zeroConfigMap),
              Sleep (Jitter backoff (2 / 10) (jitterSample r))])"
    by (simp add: attempt_cases IsAlreadyExists_def inspectLeader_def Let_def zeroConfigMap_def)
  show ?thesis using one two three by (intro conjI)
qed

theorem not_found_never_inspects_witness:
  "Become (exampleWorld (Inl StatusNotFound) [evictedRound, conflictRound]) ''lock'' =
     (StillWaiting,
      [Log TryingToBecomeTheLeader, Api (GetPod ''ns'' ''me''),
       Api (GetConfigMap ''ns'' ''lock''), Log NoPreExistingLock,
       Api (CreateConfigMap ''ns'' (lockOf [refMe])),
       Log (MustHaveExactlyOneOwner zeroConfigMap), Sleep 1000000000,
       Api (CreateConfigMap ''ns'' (lockOf [refMe])),
       Log (MustHaveExactlyOneOwner zeroConfigMap), Sleep 2200000000])"
  using not_found_never_inspects[of "exampleWorld (Inl StatusNotFound) [evictedRound, conflictRound]"
      "''ns'' @ [CHR 0x0A]" podMe StatusNotFound "''ns''" "lockOf [refMe]" "''lock''"]
  by (simp add: model_defs example_defs)

end
